theory Spec2Isabelle
  imports Complex_Main
begin

section \<open>Python strings and numbers used by bot_db.py\<close>

text \<open>
  Text is modelled as \<^typ>\<open>string\<close>, the UTF-8 bytes of the Python string; the emoji of the
  reply texts are written as their UTF-8 bytes. Timestamps (\<^verbatim>\<open>time.time()\<close>, the REAL column
  \<^verbatim>\<open>expiry_time\<close>) are Python floats; they are idealised as \<^typ>\<open>real\<close>, so the rounding of
  float arithmetic is not part of the model.
\<close>

definition nl :: string where
  "nl = [CHR 0x0A]"

text \<open>ASCII white space, as \<^verbatim>\<open>str.split()\<close> and \<^verbatim>\<open>str.strip()\<close> see it. The non-ASCII
  white space of Python (U+0085, U+00A0, U+2000 ...) is not modelled.\<close>

definition is_space :: "char \<Rightarrow> bool" where
  "is_space c = (c \<in> set [CHR 0x09, CHR 0x0A, CHR 0x0B, CHR 0x0C, CHR 0x0D,
                             CHR 0x1C, CHR 0x1D, CHR 0x1E, CHR 0x1F, CHR 0x20])"

text \<open>\<^verbatim>\<open>s.split()\<close>: the maximal runs of non-space characters, in order. The first
  argument is the word read so far.\<close>

fun split_acc :: "string \<Rightarrow> string \<Rightarrow> string list" where
  "split_acc w [] = (if w = [] then [] else [w])"
| "split_acc w (c # cs) =
     (if is_space c then (if w = [] then split_acc [] cs else w # split_acc [] cs)
      else split_acc (w @ [c]) cs)"

definition split :: "string \<Rightarrow> string list" where
  "split s = split_acc [] s"

text \<open>\<^verbatim>\<open>s.split(maxsplit=1)\<close>: the first word, and the rest after the white space that
  follows it (its trailing white space kept) when that rest is not empty.\<close>

definition split_max1 :: "string \<Rightarrow> string list" where
  "split_max1 s =
     (let s1 = dropWhile is_space s in
      if s1 = [] then []
      else
        let w = takeWhile (\<lambda>c. \<not> is_space c) s1;
            rest = dropWhile is_space (dropWhile (\<lambda>c. \<not> is_space c) s1)
        in if rest = [] then [w] else [w, rest])"

definition strip :: "string \<Rightarrow> string" where
  "strip s = rev (dropWhile is_space (rev (dropWhile is_space s)))"

text \<open>\<^verbatim>\<open>s.lstrip('@')\<close>\<close>

definition lstrip_at :: "string \<Rightarrow> string" where
  "lstrip_at s = dropWhile (\<lambda>c. c = CHR ''@'') s"

text \<open>\<^verbatim>\<open>s.lower()\<close> on the ASCII letters. Python also lowers non-ASCII capitals; none of
  them becomes a letter of a package label, so membership in \<^verbatim>\<open>VIP_PACKAGES\<close> is the same.\<close>

definition lower_char :: "char \<Rightarrow> char" where
  "lower_char c =
     (case map_of (zip ''ABCDEFGHIJKLMNOPQRSTUVWXYZ'' ''abcdefghijklmnopqrstuvwxyz'') c of
        Some l \<Rightarrow> l
      | None \<Rightarrow> c)"

definition lower :: "string \<Rightarrow> string" where
  "lower s = map lower_char s"

text \<open>\<^verbatim>\<open>str(n)\<close> for a Python int: decimal digits, a minus sign for a negative number.\<close>

definition digit_char :: "nat \<Rightarrow> char" where
  "digit_char d = ''0123456789'' ! d"

function str_nat :: "nat \<Rightarrow> string" where
  "str_nat n = (if n < 10 then [digit_char n] else str_nat (n div 10) @ [digit_char (n mod 10)])"
  by pat_completeness auto
termination
  by (relation "measure (\<lambda>n. n)") auto

declare str_nat.simps [simp del]

definition str_int :: "int \<Rightarrow> string" where
  "str_int i = (if i < 0 then CHR ''-'' # str_nat (nat (- i)) else str_nat (nat i))"

text \<open>\<^verbatim>\<open>int(s)\<close> for a string: white space stripped, an optional sign, decimal digits
  with single underscores allowed between digits; \<open>None\<close> is \<^verbatim>\<open>ValueError\<close>. Non-ASCII
  digits and the interpreter's limit on the number of digits are not modelled.\<close>

definition digit_val :: "char \<Rightarrow> nat option" where
  "digit_val c = map_of (zip ''0123456789'' [0, 1, 2, 3, 4, 5, 6, 7, 8, 9]) c"

fun parse_digits :: "nat \<Rightarrow> bool \<Rightarrow> string \<Rightarrow> nat option" where
  "parse_digits acc prev [] = (if prev then Some acc else None)"
| "parse_digits acc prev (c # cs) =
     (case digit_val c of
        Some d \<Rightarrow> parse_digits (acc * 10 + d) True cs
      | None \<Rightarrow> if c = CHR ''_'' \<and> prev then parse_digits acc False cs else None)"

definition py_int :: "string \<Rightarrow> int option" where
  "py_int s =
     (case strip s of
        [] \<Rightarrow> None
      | c # cs \<Rightarrow>
          if c = CHR ''-'' then map_option (\<lambda>n. - int n) (parse_digits 0 False cs)
          else if c = CHR ''+'' then map_option int (parse_digits 0 False cs)
          else map_option int (parse_digits 0 False (c # cs)))"

section \<open>Configuration\<close>

text \<open>\<^verbatim>\<open>ADMIN_ID\<close> is a Python int or a Python str, decided when the module is loaded.\<close>

datatype admin_id = Admin_int int | Admin_str string

text \<open>Lines 47-58: the argument is the environment variable \<^verbatim>\<open>ADMIN_ID\<close>, \<open>None\<close> when it
  is not set.\<close>

definition load_admin_id :: "string option \<Rightarrow> admin_id" where
  "load_admin_id var =
     (let admin_id_str = (case var of None \<Rightarrow> ''0'' | Some v \<Rightarrow> v) in
      if take 1 admin_id_str = ''@'' then Admin_str admin_id_str
      else (case py_int admin_id_str of
              Some n \<Rightarrow> Admin_int n
            | None \<Rightarrow> Admin_int 0))"

text \<open>\<^verbatim>\<open>VIP_PACKAGES\<close>, in the order of the dict literal.\<close>

definition VIP_PACKAGES :: "(string \<times> int) list" where
  "VIP_PACKAGES = [(''1day'', 1), (''3days'', 3), (''7days'', 7), (''30days'', 30)]"

section \<open>Messages and the admin check\<close>

text \<open>The fields of a telebot message that the handlers read: \<^verbatim>\<open>message.from_user.id\<close>,
  \<^verbatim>\<open>message.from_user.username\<close> (\<open>None\<close> for a user without a handle),
  \<^verbatim>\<open>message.chat.id\<close> and \<^verbatim>\<open>message.text\<close>.\<close>

record message =
  from_id :: int
  from_username :: "string option"
  chat_id :: int
  msg_text :: string

text \<open>What an f-string prints for \<^verbatim>\<open>message.from_user.username\<close>.\<close>

definition fmt_username :: "string option \<Rightarrow> string" where
  "fmt_username u = (case u of None \<Rightarrow> ''None'' | Some s \<Rightarrow> s)"

definition is_admin :: "admin_id \<Rightarrow> message \<Rightarrow> bool" where
  "is_admin ADMIN_ID m =
     (let user_id = from_id m in
      if from_username m = Some ''Dssky7282''
           \<or> ''@'' @ fmt_username (from_username m) = ''@Dssky7282''
      then True
      else
        (case ADMIN_ID of
           Admin_int n \<Rightarrow> user_id = n
         | Admin_str a \<Rightarrow>
             if (case from_username m of
                   None \<Rightarrow> False
                 | Some username \<Rightarrow>
                     username \<noteq> [] \<and> (''@'' @ username = a \<or> username = lstrip_at a))
             then True
             else if a = ''0'' \<or> a = '''' then True
             else False))"

section \<open>The remaining time of an entitlement\<close>

text \<open>Python's \<^verbatim>\<open>//\<close> and \<^verbatim>\<open>%\<close> on floats with a positive divisor.\<close>

definition floordiv :: "real \<Rightarrow> real \<Rightarrow> real" where
  "floordiv a b = of_int \<lfloor>a / b\<rfloor>"

definition pymod :: "real \<Rightarrow> real \<Rightarrow> real" where
  "pymod a b = a - b * of_int \<lfloor>a / b\<rfloor>"

text \<open>\<^verbatim>\<open>get_vip_time_remaining(expiry_time)\<close>; the first argument is the value of
  \<^verbatim>\<open>time.time()\<close> that the function reads.\<close>

definition get_vip_time_remaining :: "real \<Rightarrow> real \<Rightarrow> string" where
  "get_vip_time_remaining now expiry_time =
     (let remaining = expiry_time - now in
      if remaining \<le> 0 then ''expired''
      else
        let days = \<lfloor>floordiv remaining (24 * 3600)\<rfloor>;
            remaining1 = pymod remaining (24 * 3600);
            hours = \<lfloor>floordiv remaining1 3600\<rfloor>;
            remaining2 = pymod remaining1 3600;
            minutes = \<lfloor>floordiv remaining2 60\<rfloor>
        in if days > 0 then str_int days @ '' days, '' @ str_int hours @ '' hours''
           else if hours > 0 then str_int hours @ '' hours, '' @ str_int minutes @ '' minutes''
           else str_int minutes @ '' minutes'')"

text \<open>The decomposition in the words of the specification: the whole seconds of the
  remaining time, divided as integers into days, the hours of the remainder and the
  minutes of the remainder.\<close>

definition formatRemaining :: "real \<Rightarrow> real \<Rightarrow> string" where
  "formatRemaining expiresAt now =
     (let remaining = expiresAt - now in
      if remaining \<le> 0 then ''expired''
      else
        let secs = \<lfloor>remaining\<rfloor>;
            days = secs div 86400;
            hours = (secs mod 86400) div 3600;
            minutes = ((secs mod 86400) mod 3600) div 60
        in if days > 0 then str_int days @ '' days, '' @ str_int hours @ '' hours''
           else if hours > 0 then str_int hours @ '' hours, '' @ str_int minutes @ '' minutes''
           else str_int minutes @ '' minutes'')"

section \<open>The store and the transport\<close>

text \<open>The rows of the two tables. The classes \<^verbatim>\<open>Video\<close> and \<^verbatim>\<open>VipUser\<close> are declared in
  \<^verbatim>\<open>models.py\<close>; bot_db.py reads and writes the attributes below, and looks rows up with
  \<^verbatim>\<open>query.get\<close> by \<^verbatim>\<open>Video.id\<close> and \<^verbatim>\<open>VipUser.user_id\<close>, the primary keys of the
  specification's tables.\<close>

record video =
  video_id :: string
  url :: string

record vip_user =
  user_id :: string
  expiry_time :: real
  package :: string

text \<open>Modelled from the spec: \<^verbatim>\<open>VipUser.is_active()\<close> is defined in \<^verbatim>\<open>models.py\<close>. The
  specification says that validity is \<^verbatim>\<open>expiresAt > now\<close>, computed at read time. The first
  argument is the current time.\<close>

definition is_active :: "real \<Rightarrow> vip_user \<Rightarrow> bool" where
  "is_active now v = (expiry_time v > now)"

datatype db_access =
    Video_get string | Video_add string | Video_delete string
  | Vip_get string | Vip_add string | Vip_update string | Vip_delete string
  | Commit

text \<open>The state that the handlers share: the two tables, each a map from its primary
  key, the accesses made to the database session so far, and the calls of
  \<^verbatim>\<open>bot.send_message\<close> so far, each with its chat and its text.\<close>

record bot_state =
  videos :: "string \<rightharpoonup> video"
  vip_users :: "string \<rightharpoonup> vip_user"
  db_log :: "db_access list"
  outbox :: "(int \<times> string) list"

text \<open>What a handler reads besides the message and the state: the module's constants,
  the clock (one reading for the whole handler), the string of the next
  \<^verbatim>\<open>uuid.uuid4()\<close>, the answer of \<^verbatim>\<open>bot.get_me().username\<close> (\<open>None\<close> when the call
  fails), \<^verbatim>\<open>time.strftime("%Y-%m-%d %H:%M:%S", time.localtime(t))\<close> in the host's time
  zone (taken as total), and the chats to which \<^verbatim>\<open>bot.send_message\<close> succeeds. The
  database itself is taken to be reachable: the only error of the store in the model is
  the violation of a primary key.\<close>

record env =
  ADMIN_ID :: admin_id
  PAYMENT_LINK :: string
  time_now :: real
  uuid4_str :: string
  get_me_username :: "string option"
  strftime_localtime :: "real \<Rightarrow> string"
  deliverable :: "int \<Rightarrow> bool"

datatype py_error = ValueError | IntegrityError | ApiException

text \<open>How a call ends: it returns, or it raises. The state travels with both, since
  what was committed or sent before a raise stays.\<close>

datatype outcome = Returned | Raised py_error

definition and_then ::
  "outcome \<times> bot_state \<Rightarrow> (bot_state \<Rightarrow> outcome \<times> bot_state) \<Rightarrow> outcome \<times> bot_state" where
  "and_then r f = (case r of (Returned, st) \<Rightarrow> f st | (Raised e, st) \<Rightarrow> (Raised e, st))"

text \<open>\<^verbatim>\<open>try: ... except Exception: ...\<close>\<close>

definition except_Exception ::
  "outcome \<times> bot_state \<Rightarrow> (bot_state \<Rightarrow> outcome \<times> bot_state) \<Rightarrow> outcome \<times> bot_state" where
  "except_Exception r h = (case r of (Returned, st) \<Rightarrow> (Returned, st) | (Raised e, st) \<Rightarrow> h st)"

text \<open>\<^verbatim>\<open>bot.send_message(chat, txt)\<close>: the call is recorded, and raises when the transport
  does not accept it.\<close>

definition send_message :: "env \<Rightarrow> int \<Rightarrow> string \<Rightarrow> bot_state \<Rightarrow> outcome \<times> bot_state" where
  "send_message env chat txt st =
     (if deliverable env chat then Returned else Raised ApiException,
      st\<lparr>outbox := outbox st @ [(chat, txt)]\<rparr>)"

text \<open>The messages that a run from state \<open>st\<close> to state \<open>st'\<close> has sent.\<close>

definition replies :: "bot_state \<Rightarrow> bot_state \<Rightarrow> (int \<times> string) list" where
  "replies st st' = drop (length (outbox st)) (outbox st')"

text \<open>\<^verbatim>\<open>Video.query.get(k)\<close> and \<^verbatim>\<open>VipUser.query.get(k)\<close>\<close>

definition video_get :: "string \<Rightarrow> bot_state \<Rightarrow> video option \<times> bot_state" where
  "video_get k st = (videos st k, st\<lparr>db_log := db_log st @ [Video_get k]\<rparr>)"

definition vip_get :: "string \<Rightarrow> bot_state \<Rightarrow> vip_user option \<times> bot_state" where
  "vip_get k st = (vip_users st k, st\<lparr>db_log := db_log st @ [Vip_get k]\<rparr>)"

text \<open>Modelled from the spec: the declarations of the two tables are in \<^verbatim>\<open>models.py\<close>,
  which is not among the sources; the specification gives them as
  \<^verbatim>\<open>content(id TEXT PRIMARY KEY, locator TEXT)\<close> and
  \<^verbatim>\<open>entitlement(userId TEXT PRIMARY KEY, expiresAt REAL, package TEXT)\<close>, with at most one
  entitlement per user. \<^verbatim>\<open>db.session.add(row); db.session.commit()\<close> is an INSERT of a
  new row: when the table holds a row with the same primary key the commit raises, and
  the session is rolled back when the application context is left, so the table keeps
  the old row.\<close>

definition video_add_commit :: "video \<Rightarrow> bot_state \<Rightarrow> outcome \<times> bot_state" where
  "video_add_commit v st =
     (let st1 = st\<lparr>db_log := db_log st @ [Video_add (video_id v), Commit]\<rparr> in
      if videos st (video_id v) \<noteq> None then (Raised IntegrityError, st1)
      else (Returned, st1\<lparr>videos := (videos st)(video_id v \<mapsto> v)\<rparr>))"

definition vip_add_commit :: "vip_user \<Rightarrow> bot_state \<Rightarrow> outcome \<times> bot_state" where
  "vip_add_commit v st =
     (let st1 = st\<lparr>db_log := db_log st @ [Vip_add (user_id v), Commit]\<rparr> in
      if vip_users st (user_id v) \<noteq> None then (Raised IntegrityError, st1)
      else (Returned, st1\<lparr>vip_users := (vip_users st)(user_id v \<mapsto> v)\<rparr>))"

text \<open>Attribute assignments on the row loaded under key \<open>k\<close>, then
  \<^verbatim>\<open>db.session.commit()\<close>: an UPDATE of that row.\<close>

definition vip_update_commit :: "string \<Rightarrow> vip_user \<Rightarrow> bot_state \<Rightarrow> outcome \<times> bot_state" where
  "vip_update_commit k v st =
     (Returned, st\<lparr>vip_users := (vip_users st)(k \<mapsto> v),
                   db_log := db_log st @ [Vip_update k, Commit]\<rparr>)"

text \<open>\<^verbatim>\<open>db.session.delete(row); db.session.commit()\<close> for the row loaded under key \<open>k\<close>\<close>

definition video_delete_commit :: "string \<Rightarrow> bot_state \<Rightarrow> outcome \<times> bot_state" where
  "video_delete_commit k st =
     (Returned, st\<lparr>videos := (videos st)(k := None),
                   db_log := db_log st @ [Video_delete k, Commit]\<rparr>)"

definition vip_delete_commit :: "string \<Rightarrow> bot_state \<Rightarrow> outcome \<times> bot_state" where
  "vip_delete_commit k st =
     (Returned, st\<lparr>vip_users := (vip_users st)(k := None),
                   db_log := db_log st @ [Vip_delete k, Commit]\<rparr>)"

section \<open>The access check\<close>

definition is_vip :: "real \<Rightarrow> int \<Rightarrow> bot_state \<Rightarrow> (bool \<times> real) \<times> bot_state" where
  "is_vip now uid st =
     (let user_id_str = str_int uid;
          (vip_user, st1) = vip_get user_id_str st
      in case vip_user of
           Some v \<Rightarrow> if is_active now v then ((True, expiry_time v), st1) else ((False, 0), st1)
         | None \<Rightarrow> ((False, 0), st1))"

section \<open>Reply texts\<close>

definition cross_mark :: string where
  "cross_mark = [CHR 0xE2, CHR 0x9D, CHR 0x8C]"

definition check_mark :: string where
  "check_mark = [CHR 0xE2, CHR 0x9C, CHR 0x85]"

definition warning_sign :: string where
  "warning_sign = [CHR 0xE2, CHR 0x9A, CHR 0xA0, CHR 0xEF, CHR 0xB8, CHR 0x8F]"

definition bullet :: string where
  "bullet = [CHR 0xE2, CHR 0x80, CHR 0xA2]"

definition admin_only_text :: string where
  "admin_only_text = cross_mark @ '' This command is only available for admins.''"

definition invalid_link_text :: string where
  "invalid_link_text = cross_mark @ '' This video link is invalid or has expired.''"

definition video_access_text :: "string \<Rightarrow> string \<Rightarrow> string" where
  "video_access_text video_url time_remaining =
     check_mark @ '' Here'' @ [CHR 0x27] @ ''s your video: '' @ video_url @ nl @ nl
       @ ''Your VIP status is active. Time remaining: '' @ time_remaining @ ''.''"

definition payment_text :: "string \<Rightarrow> string \<Rightarrow> string" where
  "payment_text first_line payment_link =
     first_line @ nl @ nl
       @ ''Please make a payment at '' @ payment_link @ '' to get VIP access.'' @ nl @ nl
       @ ''Available packages:'' @ nl
       @ bullet @ '' 1 day VIP'' @ nl
       @ bullet @ '' 3 days VIP'' @ nl
       @ bullet @ '' 7 days VIP'' @ nl
       @ bullet @ '' 30 days VIP'' @ nl @ nl
       @ ''After payment, send the screenshot to the admin for verification.''"

definition requires_vip_text :: "string \<Rightarrow> string" where
  "requires_vip_text payment_link =
     payment_text ([CHR 0xF0, CHR 0x9F, CHR 0x94, CHR 0x92] @ '' This content requires VIP access.'')
       payment_link"

definition welcome_text :: "string \<Rightarrow> string" where
  "welcome_text vip_status_text =
     [CHR 0xF0, CHR 0x9F, CHR 0x91, CHR 0x8B] @ '' Welcome to the VIP Video Bot!'' @ nl @ nl
       @ ''Use the links shared by admins to access premium videos.'' @ vip_status_text"

definition vip_status_text_of :: "string \<Rightarrow> string" where
  "vip_status_text_of time_remaining =
     nl @ nl @ [CHR 0xE2, CHR 0x9C, CHR 0xA8] @ '' You have VIP status! Time remaining: ''
       @ time_remaining"

definition addvideo_usage_text :: string where
  "addvideo_usage_text = cross_mark @ '' Usage: /addvideo <video_url>''"

definition video_added_text :: "string \<Rightarrow> string \<Rightarrow> string \<Rightarrow> string" where
  "video_added_text deep_link vid video_url =
     check_mark @ '' Video added successfully!'' @ nl @ nl
       @ [CHR 0xF0, CHR 0x9F, CHR 0x94, CHR 0x97] @ '' Share this link for paid access:'' @ nl
       @ deep_link @ nl @ nl
       @ [CHR 0xF0, CHR 0x9F, CHR 0x86, CHR 0x94] @ '' Video ID: '' @ vid @ nl
       @ [CHR 0xF0, CHR 0x9F, CHR 0x8E, CHR 0xAC] @ '' URL: '' @ video_url"

definition setvip_usage_text :: string where
  "setvip_usage_text =
     cross_mark @ '' Usage: /setvip <user_id> <package>'' @ nl @ nl
       @ ''Available packages: 1day, 3days, 7days, 30days''"

text \<open>\<^verbatim>\<open>', '.join(keys)\<close>\<close>

fun join_comma :: "string list \<Rightarrow> string" where
  "join_comma [] = []"
| "join_comma [k] = k"
| "join_comma (k # ks) = k @ '', '' @ join_comma ks"

definition invalid_package_text :: string where
  "invalid_package_text =
     cross_mark @ '' Invalid package. Available packages: '' @ join_comma (map fst VIP_PACKAGES)"

definition setvip_done_text :: "string \<Rightarrow> string \<Rightarrow> int \<Rightarrow> string \<Rightarrow> string" where
  "setvip_done_text target pkg days expiry_date =
     check_mark @ '' VIP status set for user '' @ target @ nl
       @ [CHR 0xF0, CHR 0x9F, CHR 0x93, CHR 0xA6] @ '' Package: '' @ pkg
       @ '' ('' @ str_int days @ '' days)'' @ nl
       @ [CHR 0xE2, CHR 0x8F, CHR 0xB1] @ '' Expires on: '' @ expiry_date"

definition congratulations_text :: "int \<Rightarrow> string \<Rightarrow> string" where
  "congratulations_text days expiry_date =
     [CHR 0xF0, CHR 0x9F, CHR 0x8C, CHR 0x9F] @ '' Congratulations! You now have VIP access!''
       @ nl @ nl
       @ ''Your VIP status is valid for '' @ str_int days @ '' days until '' @ expiry_date
       @ ''.'' @ nl
       @ ''You can now access all premium videos shared with you.''"

definition could_not_notify_text :: string where
  "could_not_notify_text =
     warning_sign @ '' Could not notify the user. They may need to start the bot first.''"

definition setvip_error_text :: string where
  "setvip_error_text = cross_mark @ '' Error setting VIP status. Check logs for details.''"

definition delvideo_usage_text :: string where
  "delvideo_usage_text = cross_mark @ '' Usage: /delvideo <video_id>''"

definition video_deleted_text :: "string \<Rightarrow> string" where
  "video_deleted_text vid = check_mark @ '' Video with ID '' @ vid @ '' deleted successfully!''"

definition video_not_found_text :: "string \<Rightarrow> string" where
  "video_not_found_text vid = cross_mark @ '' Video with ID '' @ vid @ '' not found.''"

definition removevip_usage_text :: string where
  "removevip_usage_text = cross_mark @ '' Usage: /removevip <user_id>''"

definition vip_removed_text :: "string \<Rightarrow> string" where
  "vip_removed_text target = check_mark @ '' VIP status removed for user '' @ target @ ''.''"

definition vip_revoked_text :: string where
  "vip_revoked_text =
     warning_sign @ '' Your VIP access has been revoked by the administrator.''"

definition no_vip_text :: "string \<Rightarrow> string" where
  "no_vip_text target = cross_mark @ '' User '' @ target @ '' does not have VIP status.''"

definition removevip_error_text :: string where
  "removevip_error_text = cross_mark @ '' Error removing VIP status. Check logs for details.''"

section \<open>The handlers\<close>

text \<open>Each handler is the function that telebot calls for its command, applied to the
  message; the dispatch on the command name is telebot's.\<close>

text \<open>\<^verbatim>\<open>handle_start\<close>\<close>

definition handle_start :: "env \<Rightarrow> message \<Rightarrow> bot_state \<Rightarrow> outcome \<times> bot_state" where
  "handle_start env m st =
     (let uid = from_id m;
          args = split (msg_text m)
      in if length args > 1 then
           (let vid = args ! 1;
                (video, st1) = video_get vid st
            in case video of
                 Some v \<Rightarrow>
                   (let ((vip_status, expiry), st2) = is_vip (time_now env) uid st1 in
                    if vip_status then
                      (let video_url = url v;
                           time_remaining = get_vip_time_remaining (time_now env) expiry
                       in send_message env (chat_id m)
                            (video_access_text video_url time_remaining) st2)
                    else send_message env (chat_id m) (requires_vip_text (PAYMENT_LINK env)) st2)
               | None \<Rightarrow> send_message env (chat_id m) invalid_link_text st1)
         else
           (let ((vip_status, expiry), st1) = is_vip (time_now env) uid st;
                vip_status_text =
                  (if vip_status
                   then vip_status_text_of (get_vip_time_remaining (time_now env) expiry)
                   else [])
            in send_message env (chat_id m) (welcome_text vip_status_text) st1))"

text \<open>\<^verbatim>\<open>handle_add_video\<close>\<close>

definition handle_add_video :: "env \<Rightarrow> message \<Rightarrow> bot_state \<Rightarrow> outcome \<times> bot_state" where
  "handle_add_video env m st =
     (if \<not> is_admin (ADMIN_ID env) m then send_message env (chat_id m) admin_only_text st
      else
        (let args = split_max1 (msg_text m) in
         if length args < 2 then send_message env (chat_id m) addvideo_usage_text st
         else
           (let video_url = strip (args ! 1);
                vid = take 8 (uuid4_str env)
            in and_then (video_add_commit \<lparr>video_id = vid, url = video_url\<rparr> st)
                 (\<lambda>st1. case get_me_username env of
                           None \<Rightarrow> (Raised ApiException, st1)
                         | Some bot_username \<Rightarrow>
                             (let deep_link = ''https://t.me/'' @ bot_username @ ''?start='' @ vid
                              in send_message env (chat_id m)
                                   (video_added_text deep_link vid video_url) st1)))))"

text \<open>\<^verbatim>\<open>handle_set_vip\<close>, lines 274-287: the block that reads and writes the row.\<close>

definition set_vip_store ::
  "real \<Rightarrow> string \<Rightarrow> real \<Rightarrow> string \<Rightarrow> bot_state \<Rightarrow> outcome \<times> bot_state" where
  "set_vip_store now target expiry pkg st =
     (let (vip_user, st1) = vip_get target st;
          new_user = \<lparr>user_id = target, expiry_time = expiry, package = pkg\<rparr>
      in case vip_user of
           Some v \<Rightarrow>
             if is_active now v
             then vip_update_commit target
                    (v\<lparr>expiry_time := max (expiry_time v) expiry, package := pkg\<rparr>) st1
             else vip_add_commit new_user st1
         | None \<Rightarrow> vip_add_commit new_user st1)"

text \<open>Lines 300-313: the notification of the user, in its own \<^verbatim>\<open>try\<close>.\<close>

definition set_vip_notify ::
  "env \<Rightarrow> message \<Rightarrow> string \<Rightarrow> int \<Rightarrow> string \<Rightarrow> bot_state \<Rightarrow> outcome \<times> bot_state" where
  "set_vip_notify env m target days expiry_date st =
     except_Exception
       (case py_int target of
          None \<Rightarrow> (Raised ValueError, st)
        | Some n \<Rightarrow> send_message env n (congratulations_text days expiry_date) st)
       (\<lambda>st'. send_message env (chat_id m) could_not_notify_text st')"

text \<open>Lines 258-313: the body of the outer \<^verbatim>\<open>try\<close>.\<close>

definition set_vip_try ::
  "env \<Rightarrow> message \<Rightarrow> string list \<Rightarrow> bot_state \<Rightarrow> outcome \<times> bot_state" where
  "set_vip_try env m args st =
     (let target = args ! 1;
          pkg = lower (args ! 2)
      in case map_of VIP_PACKAGES pkg of
           None \<Rightarrow> send_message env (chat_id m) invalid_package_text st
         | Some days \<Rightarrow>
             (let current_time = time_now env;
                  expiry = current_time + real_of_int (days * 24 * 60 * 60)
              in and_then (set_vip_store current_time target expiry pkg st)
                   (\<lambda>st1.
                      let expiry_date = strftime_localtime env expiry
                      in and_then
                           (send_message env (chat_id m)
                              (setvip_done_text target pkg days expiry_date) st1)
                           (\<lambda>st2. set_vip_notify env m target days expiry_date st2))))"

definition handle_set_vip :: "env \<Rightarrow> message \<Rightarrow> bot_state \<Rightarrow> outcome \<times> bot_state" where
  "handle_set_vip env m st =
     (if \<not> is_admin (ADMIN_ID env) m then send_message env (chat_id m) admin_only_text st
      else
        (let args = split (msg_text m) in
         if length args < 3 then send_message env (chat_id m) setvip_usage_text st
         else except_Exception (set_vip_try env m args st)
                (\<lambda>st'. send_message env (chat_id m) setvip_error_text st')))"

text \<open>\<^verbatim>\<open>handle_del_video\<close>\<close>

definition handle_del_video :: "env \<Rightarrow> message \<Rightarrow> bot_state \<Rightarrow> outcome \<times> bot_state" where
  "handle_del_video env m st =
     (if \<not> is_admin (ADMIN_ID env) m then send_message env (chat_id m) admin_only_text st
      else
        (let args = split (msg_text m) in
         if length args < 2 then send_message env (chat_id m) delvideo_usage_text st
         else
           (let vid = args ! 1;
                (video, st1) = video_get vid st
            in case video of
                 Some v \<Rightarrow>
                   and_then (video_delete_commit vid st1)
                     (\<lambda>st2. send_message env (chat_id m) (video_deleted_text vid) st2)
               | None \<Rightarrow> send_message env (chat_id m) (video_not_found_text vid) st1)))"

text \<open>\<^verbatim>\<open>handle_remove_vip\<close>, lines 472-479: the notification, whose failure is only
  logged.\<close>

definition remove_vip_notify :: "env \<Rightarrow> string \<Rightarrow> bot_state \<Rightarrow> outcome \<times> bot_state" where
  "remove_vip_notify env target st =
     except_Exception
       (case py_int target of
          None \<Rightarrow> (Raised ValueError, st)
        | Some n \<Rightarrow> send_message env n vip_revoked_text st)
       (\<lambda>st'. (Returned, st'))"

text \<open>Lines 459-481: the body of the outer \<^verbatim>\<open>try\<close>.\<close>

definition remove_vip_try ::
  "env \<Rightarrow> message \<Rightarrow> string list \<Rightarrow> bot_state \<Rightarrow> outcome \<times> bot_state" where
  "remove_vip_try env m args st =
     (let target = args ! 1;
          (vip_user, st1) = vip_get target st
      in case vip_user of
           Some v \<Rightarrow>
             and_then (vip_delete_commit target st1)
               (\<lambda>st2. and_then (send_message env (chat_id m) (vip_removed_text target) st2)
                        (\<lambda>st3. remove_vip_notify env target st3))
         | None \<Rightarrow> send_message env (chat_id m) (no_vip_text target) st1)"

definition handle_remove_vip :: "env \<Rightarrow> message \<Rightarrow> bot_state \<Rightarrow> outcome \<times> bot_state" where
  "handle_remove_vip env m st =
     (if \<not> is_admin (ADMIN_ID env) m then send_message env (chat_id m) admin_only_text st
      else
        (let args = split (msg_text m) in
         if length args < 2 then send_message env (chat_id m) removevip_usage_text st
         else except_Exception (remove_vip_try env m args st)
                (\<lambda>st'. send_message env (chat_id m) removevip_error_text st')))"

section \<open>Concrete inputs\<close>

text \<open>The scenario of the specification's testable properties: the admin has id 1, the
  clock reads 1000, user 99 is not an admin; every chat accepts messages.\<close>

definition scenario_env :: env where
  "scenario_env =
     \<lparr>ADMIN_ID = Admin_int 1,
      PAYMENT_LINK = ''https://trakteer.id/yourusername'',
      time_now = 1000,
      uuid4_str = ''123e4567-e89b-42d3-a456-426614174000'',
      get_me_username = Some ''vipvideobot'',
      strftime_localtime = (\<lambda>t. ''1970-01-08 00:16:40''),
      deliverable = (\<lambda>chat. True)\<rparr>"

definition admin_message :: "string \<Rightarrow> message" where
  "admin_message txt = \<lparr>from_id = 1, from_username = Some ''boss'', chat_id = 1, msg_text = txt\<rparr>"

definition guest_message :: "string \<Rightarrow> message" where
  "guest_message txt =
     \<lparr>from_id = 99, from_username = Some ''guest'', chat_id = 99, msg_text = txt\<rparr>"

definition empty_state :: bot_state where
  "empty_state = \<lparr>videos = Map.empty, vip_users = Map.empty, db_log = [], outbox = []\<rparr>"

text \<open>A store in which user 42 holds one entitlement, with the given expiry and package.\<close>

definition vip42_state :: "real \<Rightarrow> string \<Rightarrow> bot_state" where
  "vip42_state expiry pkg =
     empty_state\<lparr>vip_users :=
       [''42'' \<mapsto> \<lparr>user_id = ''42'', expiry_time = expiry, package = pkg\<rparr>]\<rparr>"

text \<open>A store with one video, under the id \<open>abcd1234\<close>.\<close>

definition video_state :: bot_state where
  "video_state =
     empty_state\<lparr>videos :=
       [''abcd1234'' \<mapsto> \<lparr>video_id = ''abcd1234'', url = ''https://example.org/v.mp4''\<rparr>]\<rparr>"

section \<open>The remaining time: the code against the specification\<close>

lemma floor_floordiv: "0 < b \<Longrightarrow> \<lfloor>floordiv a (real_of_int b)\<rfloor> = \<lfloor>a\<rfloor> div b"
  by (simp add: floordiv_def floor_divide_real_eq_div)

lemma floor_pymod:
  assumes "0 < b"
  shows "\<lfloor>pymod a (real_of_int b)\<rfloor> = \<lfloor>a\<rfloor> mod b"
proof -
  have "\<lfloor>a - real_of_int b * of_int \<lfloor>a / real_of_int b\<rfloor>\<rfloor> = \<lfloor>a\<rfloor> - b * \<lfloor>a / real_of_int b\<rfloor>"
    by (metis floor_diff_of_int of_int_mult)
  also have "\<dots> = \<lfloor>a\<rfloor> - b * (\<lfloor>a\<rfloor> div b)"
    using assms by (simp add: floor_divide_real_eq_div)
  also have "\<dots> = \<lfloor>a\<rfloor> mod b"
    by (simp add: minus_mult_div_eq_mod)
  finally show ?thesis
    by (simp add: pymod_def)
qed

lemma get_vip_time_remaining_refines:
  "get_vip_time_remaining now expiresAt = formatRemaining expiresAt now"
proof -
  have days: "\<lfloor>floordiv r (24 * 3600)\<rfloor> = \<lfloor>r\<rfloor> div 86400" for r
    using floor_floordiv [of 86400 r] by simp
  have rest1: "\<lfloor>pymod r (24 * 3600)\<rfloor> = \<lfloor>r\<rfloor> mod 86400" for r
    using floor_pymod [of 86400 r] by simp
  have hours: "\<lfloor>floordiv r 3600\<rfloor> = \<lfloor>r\<rfloor> div 3600" for r
    using floor_floordiv [of 3600 r] by simp
  have rest2: "\<lfloor>pymod r 3600\<rfloor> = \<lfloor>r\<rfloor> mod 3600" for r
    using floor_pymod [of 3600 r] by simp
  have minutes: "\<lfloor>floordiv r 60\<rfloor> = \<lfloor>r\<rfloor> div 60" for r
    using floor_floordiv [of 60 r] by simp
  show ?thesis
    unfolding get_vip_time_remaining_def formatRemaining_def Let_def
    by (simp only: days rest1 hours rest2 minutes)
qed

lemmas str_eval = str_int_def str_nat.simps digit_char_def

text \<open>
  C3. \<^verbatim>\<open>get_vip_time_remaining\<close> is the specification's \<open>formatRemaining\<close>: the string
  \<open>expired\<close> when \<open>expiresAt - now \<le> 0\<close>; otherwise the whole seconds that remain are
  divided as integers into days, the hours of the remainder and the minutes of the
  remainder, and the result is \<open>D days, H hours\<close> if \<open>D > 0\<close>, else \<open>H hours, M minutes\<close>
  if \<open>H > 0\<close>, else \<open>M minutes\<close>. With 90000 seconds left it is \<open>1 days, 1 hours\<close>, with
  5400 it is \<open>1 hours, 30 minutes\<close>, with 45 it is \<open>0 minutes\<close>, and 5 seconds after the
  expiry it is \<open>expired\<close>.
\<close>

theorem get_vip_time_remaining_format:
  "get_vip_time_remaining now expiresAt = formatRemaining expiresAt now
   \<and> get_vip_time_remaining now (now + 90000) = ''1 days, 1 hours''
   \<and> get_vip_time_remaining now (now + 5400) = ''1 hours, 30 minutes''
   \<and> get_vip_time_remaining now (now + 45) = ''0 minutes''
   \<and> get_vip_time_remaining now (now - 5) = ''expired''"
  by (simp add: get_vip_time_remaining_refines formatRemaining_def str_eval)

theorem get_vip_time_remaining_format_witness:
  "get_vip_time_remaining 1000 (1000 + 90000) = ''1 days, 1 hours''
   \<and> get_vip_time_remaining 1000 (1000 + 3 * 86400 + 7200.5) = ''3 days, 2 hours''
   \<and> formatRemaining 1000 1000 = ''expired''"
  using get_vip_time_remaining_format [of 1000 "1000 + 90000"]
    get_vip_time_remaining_format [of 1000 "1000 + 3 * 86400 + 7200.5"]
    get_vip_time_remaining_format [of 1000 1000]
  by (simp add: formatRemaining_def str_eval)

section \<open>The admin check\<close>

lemmas py_int_eval = py_int_def strip_def is_space_def digit_val_def

text \<open>Whatever the environment variable holds, the loaded \<^verbatim>\<open>ADMIN_ID\<close> is an int, or a
  string that starts with \<open>@\<close>: it is never the string \<open>0\<close> or the empty string.\<close>

lemma load_admin_id_cases:
  "(\<exists>n. load_admin_id var = Admin_int n)
   \<or> (\<exists>a. load_admin_id var = Admin_str (CHR ''@'' # a))"
proof (cases "take 1 (case var of None \<Rightarrow> ''0'' | Some v \<Rightarrow> v) = ''@''")
  case True
  then obtain a where "(case var of None \<Rightarrow> ''0'' | Some v \<Rightarrow> v) = CHR ''@'' # a"
    by (cases "case var of None \<Rightarrow> ''0'' | Some v \<Rightarrow> v") auto
  with True show ?thesis
    by (simp add: load_admin_id_def)
next
  case False
  then show ?thesis
    by (simp add: load_admin_id_def split: option.splits)
qed

text \<open>With an int \<^verbatim>\<open>ADMIN_ID\<close>, the check is the comparison of the ids (the hardcoded
  handle apart): line 88 returns before the fallback of lines 101-104.\<close>

lemma is_admin_int:
  "from_username m \<noteq> Some ''Dssky7282'' \<Longrightarrow> is_admin (Admin_int n) m = (from_id m = n)"
  by (cases "from_username m") (simp_all add: is_admin_def fmt_username_def)

text \<open>
  C5. With no \<^verbatim>\<open>ADMIN_ID\<close> in the environment, the loaded value is the int 0, and the
  check refuses the caller with id 12345 and handle \<open>alice\<close>: the fallback that makes
  every caller an admin is not reached.
\<close>

theorem is_admin_unconfigured_refuses:
  "load_admin_id None = Admin_int 0
   \<and> \<not> is_admin (load_admin_id None)
         \<lparr>from_id = 12345, from_username = Some ''alice'', chat_id = 12345,
          msg_text = ''/setvip 42 7days''\<rparr>"
  by (simp add: load_admin_id_def py_int_eval is_admin_def fmt_username_def)

text \<open>
  C6. A caller whose handle is \<open>Dssky7282\<close> passes the admin check, whatever the
  configured \<^verbatim>\<open>ADMIN_ID\<close> and whatever the caller's id.
\<close>

theorem is_admin_hardcoded_handle:
  "from_username m = Some ''Dssky7282'' \<Longrightarrow> is_admin cfg m"
  by (simp add: is_admin_def)

theorem is_admin_hardcoded_handle_witness:
  "from_username \<lparr>from_id = 2, from_username = Some ''Dssky7282'', chat_id = 2,
                  msg_text = ''/listvip''\<rparr> = Some ''Dssky7282''
   \<and> is_admin (Admin_int 1)
        \<lparr>from_id = 2, from_username = Some ''Dssky7282'', chat_id = 2, msg_text = ''/listvip''\<rparr>
   \<and> \<not> is_admin (Admin_int 1)
          \<lparr>from_id = 2, from_username = Some ''guest'', chat_id = 2, msg_text = ''/listvip''\<rparr>"
  using is_admin_hardcoded_handle [of "\<lparr>from_id = 2, from_username = Some ''Dssky7282'',
    chat_id = 2, msg_text = ''/listvip''\<rparr>" "Admin_int 1"]
  by (simp add: is_admin_def fmt_username_def)

section \<open>The access check\<close>

text \<open>
  C2. \<^verbatim>\<open>is_vip\<close> answers \<open>True\<close> exactly when the store holds an entitlement for the
  user and its expiry is strictly later than the current time, and then it returns that
  expiry; whenever it answers \<open>False\<close> the expiry it returns is 0. It reads the store
  once and changes neither table.
\<close>

theorem is_vip_valid_iff:
  "(fst (fst (is_vip now u st))
      \<longleftrightarrow> (\<exists>v. vip_users st (str_int u) = Some v \<and> expiry_time v > now))
   \<and> (fst (fst (is_vip now u st))
      \<longrightarrow> (\<exists>v. vip_users st (str_int u) = Some v \<and> snd (fst (is_vip now u st)) = expiry_time v))
   \<and> (\<not> fst (fst (is_vip now u st)) \<longrightarrow> snd (fst (is_vip now u st)) = 0)
   \<and> snd (is_vip now u st) = st\<lparr>db_log := db_log st @ [Vip_get (str_int u)]\<rparr>"
  by (cases "vip_users st (str_int u)") (simp_all add: is_vip_def vip_get_def is_active_def Let_def)

theorem is_vip_valid_iff_witness:
  "fst (is_vip 1000 42 (vip42_state 1001 ''1day'')) = (True, 1001)
   \<and> fst (is_vip 1000 42 (vip42_state 1000 ''1day'')) = (False, 0)
   \<and> fst (is_vip 1000 42 empty_state) = (False, 0)"
  using is_vip_valid_iff [of 1000 42 "vip42_state 1001 ''1day''"]
    is_vip_valid_iff [of 1000 42 "vip42_state 1000 ''1day''"]
    is_vip_valid_iff [of 1000 42 empty_state]
  by (simp add: vip42_state_def empty_state_def str_eval prod_eq_iff)

section \<open>The admin gate of the mutating commands\<close>

lemmas scenario_eval =
  scenario_env_def admin_message_def guest_message_def empty_state_def vip42_state_def
  video_state_def

lemmas split_eval = split_def is_space_def

text \<open>
  C4. When the sender fails the admin check, each of \<^verbatim>\<open>/setvip\<close>, \<^verbatim>\<open>/removevip\<close>,
  \<^verbatim>\<open>/addvideo\<close> and \<^verbatim>\<open>/delvideo\<close> makes one call of \<^verbatim>\<open>bot.send_message\<close>, with the
  rejection text to the sender's chat, and nothing else: both tables and the log of
  database accesses are as before, so the store was neither read nor written. The
  handler returns normally when the transport accepts the reply.
\<close>

theorem unauthorized_command_rejected:
  assumes "\<not> is_admin (ADMIN_ID env) m"
  shows "handle_set_vip env m st =
           (if deliverable env (chat_id m) then Returned else Raised ApiException,
            st\<lparr>outbox := outbox st @ [(chat_id m, admin_only_text)]\<rparr>)
       \<and> handle_remove_vip env m st =
           (if deliverable env (chat_id m) then Returned else Raised ApiException,
            st\<lparr>outbox := outbox st @ [(chat_id m, admin_only_text)]\<rparr>)
       \<and> handle_add_video env m st =
           (if deliverable env (chat_id m) then Returned else Raised ApiException,
            st\<lparr>outbox := outbox st @ [(chat_id m, admin_only_text)]\<rparr>)
       \<and> handle_del_video env m st =
           (if deliverable env (chat_id m) then Returned else Raised ApiException,
            st\<lparr>outbox := outbox st @ [(chat_id m, admin_only_text)]\<rparr>)"
  using assms
  by (simp add: handle_set_vip_def handle_remove_vip_def handle_add_video_def
      handle_del_video_def send_message_def)

theorem unauthorized_command_rejected_witness:
  "\<not> is_admin (ADMIN_ID scenario_env) (guest_message ''/setvip 99 30days'')
   \<and> handle_set_vip scenario_env (guest_message ''/setvip 99 30days'') (vip42_state 500 ''1day'')
       = (Returned, (vip42_state 500 ''1day'')\<lparr>outbox := [(99, admin_only_text)]\<rparr>)
   \<and> handle_del_video scenario_env (guest_message ''/setvip 99 30days'') (vip42_state 500 ''1day'')
       = (Returned, (vip42_state 500 ''1day'')\<lparr>outbox := [(99, admin_only_text)]\<rparr>)"
proof -
  have guest: "\<not> is_admin (ADMIN_ID scenario_env) (guest_message ''/setvip 99 30days'')"
    by (simp add: scenario_eval is_admin_def fmt_username_def)
  show ?thesis
    using guest
      unauthorized_command_rejected [OF guest, of "vip42_state 500 ''1day''"]
    by (simp add: scenario_eval)
qed

section \<open>Deep links\<close>

lemma split_acc_word:
  "\<forall>c \<in> set v. \<not> is_space c \<Longrightarrow> split_acc w (v @ rest) = split_acc (w @ v) rest"
  by (induction v arbitrary: w) simp_all

text \<open>An identifier without white space arrives as the second word of the text of a
  deep link.\<close>

lemma split_deep_link:
  assumes "vid \<noteq> []" and "\<forall>c \<in> set vid. \<not> is_space c"
  shows "split (''/start '' @ vid) = [''/start'', vid]"
proof -
  have "split_acc [] (vid @ []) = split_acc ([] @ vid) []"
    using assms(2) by (rule split_acc_word)
  then have "split_acc [] vid = [vid]"
    using assms(1) by simp
  then show ?thesis
    by (simp add: split_eval)
qed

text \<open>
  C8. When the text of \<^verbatim>\<open>/start\<close> has a second word and the Content Registry holds no
  video under it, the handler looks the word up once, calls \<^verbatim>\<open>bot.send_message\<close> once,
  with the text that the link is invalid or has expired, and leaves both tables as they
  were; this for any such word. It returns normally when the transport accepts the
  reply, and a refusal of the transport is the only error it can raise.
\<close>

theorem handle_start_unknown_video:
  assumes "split (msg_text m) = args" and "1 < length args"
    and "videos st (args ! 1) = None"
  shows "handle_start env m st =
           (if deliverable env (chat_id m) then Returned else Raised ApiException,
            st\<lparr>db_log := db_log st @ [Video_get (args ! 1)],
               outbox := outbox st @ [(chat_id m, invalid_link_text)]\<rparr>)"
  using assms
  by (simp add: handle_start_def video_get_def send_message_def Let_def)

theorem handle_start_unknown_video_witness:
  "split (msg_text (guest_message ''/start zzzz9999'')) = [''/start'', ''zzzz9999'']
   \<and> videos video_state ''zzzz9999'' = None
   \<and> handle_start scenario_env (guest_message ''/start zzzz9999'') video_state =
       (Returned, video_state\<lparr>db_log := [Video_get ''zzzz9999''],
                              outbox := [(99, invalid_link_text)]\<rparr>)"
proof -
  have args: "split (msg_text (guest_message ''/start zzzz9999'')) = [''/start'', ''zzzz9999'']"
    by (simp add: scenario_eval split_eval)
  have len: "1 < length [''/start'', ''zzzz9999'']"
    by simp
  have absent: "videos video_state ([''/start'', ''zzzz9999''] ! 1) = None"
    by (simp add: scenario_eval)
  show ?thesis
    using args absent handle_start_unknown_video [OF args len absent, of scenario_env]
    by (simp add: scenario_eval)
qed

section \<open>Deleting rows\<close>

lemma texts_differ:
  "video_deleted_text k \<noteq> video_not_found_text k"
  "vip_removed_text k \<noteq> no_vip_text k"
  "vip_removed_text k \<noteq> vip_revoked_text"
  by (simp_all add: video_deleted_text_def video_not_found_text_def vip_removed_text_def
      no_vip_text_def vip_revoked_text_def check_mark_def cross_mark_def warning_sign_def)

text \<open>The calls that the notification of \<^verbatim>\<open>/removevip\<close> makes: one to the user when
  the identifier reads as an int, none otherwise.\<close>

lemma remove_vip_notify_eq:
  "remove_vip_notify env target st =
     (Returned,
      st\<lparr>outbox := outbox st @
            (case py_int target of None \<Rightarrow> [] | Some n \<Rightarrow> [(n, vip_revoked_text)])\<rparr>)"
  by (simp add: remove_vip_notify_def except_Exception_def send_message_def
      split: option.splits)

text \<open>
  C9. For an admin's \<^verbatim>\<open>/delvideo\<close> and \<^verbatim>\<open>/removevip\<close> with an identifier, when the
  transport accepts the replies to the admin: the handler returns normally in every
  case; for an identifier that is not in the table it replies that the row was not
  found and leaves the tables as they were; for one that is in the table it removes the
  row and replies with the success text. So the success text is among the replies
  exactly when a row with that identifier existed.
\<close>

theorem delete_reports_whether_row_existed:
  assumes "is_admin (ADMIN_ID env) m" and "split (msg_text m) = args" and "1 < length args"
    and "deliverable env (chat_id m)"
  shows "handle_del_video env m st =
           (Returned,
            if videos st (args ! 1) = None
            then st\<lparr>db_log := db_log st @ [Video_get (args ! 1)],
                    outbox := outbox st @ [(chat_id m, video_not_found_text (args ! 1))]\<rparr>
            else st\<lparr>videos := (videos st)(args ! 1 := None),
                    db_log := db_log st @ [Video_get (args ! 1), Video_delete (args ! 1), Commit],
                    outbox := outbox st @ [(chat_id m, video_deleted_text (args ! 1))]\<rparr>)
       \<and> handle_remove_vip env m st =
           (Returned,
            if vip_users st (args ! 1) = None
            then st\<lparr>db_log := db_log st @ [Vip_get (args ! 1)],
                    outbox := outbox st @ [(chat_id m, no_vip_text (args ! 1))]\<rparr>
            else st\<lparr>vip_users := (vip_users st)(args ! 1 := None),
                    db_log := db_log st @ [Vip_get (args ! 1), Vip_delete (args ! 1), Commit],
                    outbox := outbox st @ (chat_id m, vip_removed_text (args ! 1))
                      # (case py_int (args ! 1) of
                           None \<Rightarrow> []
                         | Some n \<Rightarrow> [(n, vip_revoked_text)])\<rparr>)
       \<and> ((chat_id m, video_deleted_text (args ! 1))
              \<in> set (replies st (snd (handle_del_video env m st)))
            \<longleftrightarrow> videos st (args ! 1) \<noteq> None)
       \<and> ((chat_id m, vip_removed_text (args ! 1))
              \<in> set (replies st (snd (handle_remove_vip env m st)))
            \<longleftrightarrow> vip_users st (args ! 1) \<noteq> None)"
proof -
  have del: "handle_del_video env m st =
           (Returned,
            if videos st (args ! 1) = None
            then st\<lparr>db_log := db_log st @ [Video_get (args ! 1)],
                    outbox := outbox st @ [(chat_id m, video_not_found_text (args ! 1))]\<rparr>
            else st\<lparr>videos := (videos st)(args ! 1 := None),
                    db_log := db_log st @ [Video_get (args ! 1), Video_delete (args ! 1), Commit],
                    outbox := outbox st @ [(chat_id m, video_deleted_text (args ! 1))]\<rparr>)"
    using assms
    by (cases "videos st (args ! 1)")
      (simp_all add: handle_del_video_def video_get_def video_delete_commit_def and_then_def
        send_message_def Let_def)
  have rem: "handle_remove_vip env m st =
           (Returned,
            if vip_users st (args ! 1) = None
            then st\<lparr>db_log := db_log st @ [Vip_get (args ! 1)],
                    outbox := outbox st @ [(chat_id m, no_vip_text (args ! 1))]\<rparr>
            else st\<lparr>vip_users := (vip_users st)(args ! 1 := None),
                    db_log := db_log st @ [Vip_get (args ! 1), Vip_delete (args ! 1), Commit],
                    outbox := outbox st @ (chat_id m, vip_removed_text (args ! 1))
                      # (case py_int (args ! 1) of
                           None \<Rightarrow> []
                         | Some n \<Rightarrow> [(n, vip_revoked_text)])\<rparr>)"
    using assms
    by (cases "vip_users st (args ! 1)")
      (simp_all add: handle_remove_vip_def remove_vip_try_def vip_get_def vip_delete_commit_def
        and_then_def except_Exception_def send_message_def remove_vip_notify_eq Let_def)
  have del_iff: "(chat_id m, video_deleted_text (args ! 1))
              \<in> set (replies st (snd (handle_del_video env m st)))
            \<longleftrightarrow> videos st (args ! 1) \<noteq> None"
    by (simp add: del replies_def texts_differ)
  have rem_iff: "(chat_id m, vip_removed_text (args ! 1))
              \<in> set (replies st (snd (handle_remove_vip env m st)))
            \<longleftrightarrow> vip_users st (args ! 1) \<noteq> None"
    by (simp add: rem replies_def texts_differ split: option.splits)
  from del rem del_iff rem_iff show ?thesis
    by (intro conjI)
qed

theorem delete_reports_whether_row_existed_witness:
  "is_admin (ADMIN_ID scenario_env) (admin_message ''/delvideo 42'')
   \<and> split (msg_text (admin_message ''/delvideo 42'')) = [''/delvideo'', ''42'']
   \<and> deliverable scenario_env (chat_id (admin_message ''/delvideo 42''))
   \<and> handle_del_video scenario_env (admin_message ''/delvideo 42'') (vip42_state 500 ''1day'') =
       (Returned, (vip42_state 500 ''1day'')
          \<lparr>db_log := [Video_get ''42''], outbox := [(1, video_not_found_text ''42'')]\<rparr>)
   \<and> handle_remove_vip scenario_env (admin_message ''/delvideo 42'') (vip42_state 500 ''1day'') =
       (Returned, empty_state
          \<lparr>db_log := [Vip_get ''42'', Vip_delete ''42'', Commit],
           outbox := [(1, vip_removed_text ''42''), (42, vip_revoked_text)]\<rparr>)"
proof -
  have admin: "is_admin (ADMIN_ID scenario_env) (admin_message ''/delvideo 42'')"
    by (simp add: scenario_eval is_admin_def fmt_username_def)
  have args: "split (msg_text (admin_message ''/delvideo 42'')) = [''/delvideo'', ''42'']"
    by (simp add: scenario_eval split_eval)
  have len: "1 < length [''/delvideo'', ''42'']"
    by simp
  have chat: "deliverable scenario_env (chat_id (admin_message ''/delvideo 42''))"
    by (simp add: scenario_eval)
  have int42: "py_int ''42'' = Some 42"
    by (simp add: py_int_eval)
  show ?thesis
    using admin args chat
      delete_reports_whether_row_existed [OF admin args len chat, of "vip42_state 500 ''1day''"]
    by (simp add: scenario_eval int42)
qed

section \<open>Granting an entitlement\<close>

text \<open>The three cases of lines 274-287.\<close>

lemma set_vip_store_active:
  assumes "vip_users st k = Some v" and "is_active now v"
  shows "set_vip_store now k e p st =
           (Returned,
            st\<lparr>vip_users := (vip_users st)
                   (k \<mapsto> v\<lparr>expiry_time := max (expiry_time v) e, package := p\<rparr>),
               db_log := db_log st @ [Vip_get k, Vip_update k, Commit]\<rparr>)"
  using assms by (simp add: set_vip_store_def vip_get_def vip_update_commit_def)

lemma set_vip_store_absent:
  assumes "vip_users st k = None"
  shows "set_vip_store now k e p st =
           (Returned,
            st\<lparr>vip_users := (vip_users st)
                   (k \<mapsto> \<lparr>user_id = k, expiry_time = e, package = p\<rparr>),
               db_log := db_log st @ [Vip_get k, Vip_add k, Commit]\<rparr>)"
  using assms by (simp add: set_vip_store_def vip_get_def vip_add_commit_def)

lemma set_vip_store_expired:
  assumes "vip_users st k = Some v" and "\<not> is_active now v"
  shows "set_vip_store now k e p st =
           (Raised IntegrityError, st\<lparr>db_log := db_log st @ [Vip_get k, Vip_add k, Commit]\<rparr>)"
  using assms by (simp add: set_vip_store_def vip_get_def vip_add_commit_def)

text \<open>Nothing that \<^verbatim>\<open>handle_set_vip\<close> does after the block of lines 274-287 touches the
  tables: for an admin's command with a known package, the tables after the handler are
  the tables after that block.\<close>

lemma handle_set_vip_tables:
  assumes "is_admin (ADMIN_ID env) m" and "split (msg_text m) = args" and "2 < length args"
    and "map_of VIP_PACKAGES (lower (args ! 2)) = Some days"
  shows "vip_users (snd (handle_set_vip env m st)) =
           vip_users (snd (set_vip_store (time_now env) (args ! 1)
             (time_now env + real_of_int (days * 24 * 60 * 60)) (lower (args ! 2)) st))
       \<and> videos (snd (handle_set_vip env m st)) =
           videos (snd (set_vip_store (time_now env) (args ! 1)
             (time_now env + real_of_int (days * 24 * 60 * 60)) (lower (args ! 2)) st))"
proof (cases "set_vip_store (time_now env) (args ! 1)
    (time_now env + real_of_int (days * 24 * 60 * 60)) (lower (args ! 2)) st")
  case (Pair res st1)
  show ?thesis
  proof (cases res)
    case Returned
    with Pair assms show ?thesis
      by (simp add: handle_set_vip_def set_vip_try_def set_vip_notify_def and_then_def
          except_Exception_def send_message_def Let_def split: option.splits)
  next
    case (Raised e)
    with Pair assms show ?thesis
      by (simp add: handle_set_vip_def set_vip_try_def and_then_def except_Exception_def
          send_message_def Let_def)
  qed
qed

lemma package_known_iff:
  "map_of VIP_PACKAGES p = None \<longleftrightarrow> p \<notin> {''1day'', ''3days'', ''7days'', ''30days''}"
  by (simp add: VIP_PACKAGES_def)

text \<open>
  C10, amended. For a \<^verbatim>\<open>/setvip\<close> from a sender who passes the admin check:
  with fewer than two arguments after the command, or with a package label whose
  lower-case form is none of \<open>1day\<close>, \<open>3days\<close>, \<open>7days\<close>, \<open>30days\<close>, the handler reads and
  writes nothing in the store, and, when the transport accepts the reply, its only
  message is the usage text in the first case and the invalid-package text in the second.
\<close>

theorem set_vip_malformed_rejected:
  assumes "is_admin (ADMIN_ID env) m" and "split (msg_text m) = args"
    and "length args < 3 \<or> lower (args ! 2) \<notin> {''1day'', ''3days'', ''7days'', ''30days''}"
  shows "videos (snd (handle_set_vip env m st)) = videos st
       \<and> vip_users (snd (handle_set_vip env m st)) = vip_users st
       \<and> db_log (snd (handle_set_vip env m st)) = db_log st
       \<and> (deliverable env (chat_id m) \<longrightarrow>
            handle_set_vip env m st =
              (Returned,
               st\<lparr>outbox := outbox st @
                  [(chat_id m,
                    if length args < 3 then setvip_usage_text else invalid_package_text)]\<rparr>))"
proof (cases "length args < 3")
  case True
  with assms(1,2) show ?thesis
    by (simp add: handle_set_vip_def send_message_def)
next
  case False
  with assms(3) have "map_of VIP_PACKAGES (lower (args ! 2)) = None"
    by (simp add: package_known_iff)
  with False assms(1,2) show ?thesis
    by (simp add: handle_set_vip_def set_vip_try_def except_Exception_def send_message_def
        Let_def)
qed

theorem set_vip_malformed_rejected_witness:
  "is_admin (ADMIN_ID scenario_env) (admin_message ''/setvip 42 2days'')
   \<and> split (msg_text (admin_message ''/setvip 42 2days'')) = [''/setvip'', ''42'', ''2days'']
   \<and> lower ([''/setvip'', ''42'', ''2days''] ! 2) \<notin> {''1day'', ''3days'', ''7days'', ''30days''}
   \<and> handle_set_vip scenario_env (admin_message ''/setvip 42 2days'') empty_state =
       (Returned, empty_state\<lparr>outbox := [(1, invalid_package_text)]\<rparr>)"
proof -
  have admin: "is_admin (ADMIN_ID scenario_env) (admin_message ''/setvip 42 2days'')"
    by (simp add: scenario_eval is_admin_def fmt_username_def)
  have args: "split (msg_text (admin_message ''/setvip 42 2days'')) = [''/setvip'', ''42'', ''2days'']"
    by (simp add: scenario_eval split_eval)
  have label: "lower ([''/setvip'', ''42'', ''2days''] ! 2) \<notin> {''1day'', ''3days'', ''7days'', ''30days''}"
    by (simp add: lower_def lower_char_def)
  have bad: "length [''/setvip'', ''42'', ''2days''] < 3
      \<or> lower ([''/setvip'', ''42'', ''2days''] ! 2) \<notin> {''1day'', ''3days'', ''7days'', ''30days''}"
    using label by simp
  show ?thesis
    using admin args label set_vip_malformed_rejected [OF admin args bad, of empty_state]
    by (simp add: scenario_eval)
qed

text \<open>
  C10, as it is stated, at a failing input. The label \<open>7DAYS\<close> is not in the
  enumeration, yet the admin's \<^verbatim>\<open>/setvip 42 7DAYS\<close> at time 1000 on an empty store
  stores an entitlement for user 42, with the package \<open>7days\<close>, and sends the confirmation
  and the notification: the handler lowers the label before it looks it up.
\<close>

theorem set_vip_uppercase_label_granted:
  "is_admin (ADMIN_ID scenario_env) (admin_message ''/setvip 42 7DAYS'')
   \<and> split (msg_text (admin_message ''/setvip 42 7DAYS'')) = [''/setvip'', ''42'', ''7DAYS'']
   \<and> ''7DAYS'' \<notin> {''1day'', ''3days'', ''7days'', ''30days''}
   \<and> handle_set_vip scenario_env (admin_message ''/setvip 42 7DAYS'') empty_state =
        (Returned,
         empty_state
           \<lparr>vip_users :=
              [''42'' \<mapsto> \<lparr>user_id = ''42'', expiry_time = 1000 + 604800, package = ''7days''\<rparr>],
            db_log := [Vip_get ''42'', Vip_add ''42'', Commit],
            outbox :=
              [(1, setvip_done_text ''42'' ''7days'' 7 ''1970-01-08 00:16:40''),
               (42, congratulations_text 7 ''1970-01-08 00:16:40'')]\<rparr>)"
proof -
  have admin: "is_admin (ADMIN_ID scenario_env) (admin_message ''/setvip 42 7DAYS'')"
    by (simp add: scenario_eval is_admin_def fmt_username_def)
  have args: "split (msg_text (admin_message ''/setvip 42 7DAYS'')) = [''/setvip'', ''42'', ''7DAYS'']"
    by (simp add: scenario_eval split_eval)
  have pkg: "map_of VIP_PACKAGES ''7days'' = Some 7"
    by (simp add: VIP_PACKAGES_def)
  have low: "lower ''7DAYS'' = ''7days''"
    by (simp add: lower_def lower_char_def)
  have int42: "py_int ''42'' = Some 42"
    by (simp add: py_int_eval)
  have store: "set_vip_store 1000 ''42'' (1000 + 604800) ''7days'' empty_state =
      (Returned,
       empty_state
         \<lparr>vip_users :=
            [''42'' \<mapsto> \<lparr>user_id = ''42'', expiry_time = 1000 + 604800, package = ''7days''\<rparr>],
          db_log := [Vip_get ''42'', Vip_add ''42'', Commit]\<rparr>)"
    by (simp add: set_vip_store_absent empty_state_def)
  have run: "handle_set_vip scenario_env (admin_message ''/setvip 42 7DAYS'') empty_state =
        (Returned,
         empty_state
           \<lparr>vip_users :=
              [''42'' \<mapsto> \<lparr>user_id = ''42'', expiry_time = 1000 + 604800, package = ''7days''\<rparr>],
            db_log := [Vip_get ''42'', Vip_add ''42'', Commit],
            outbox :=
              [(1, setvip_done_text ''42'' ''7days'' 7 ''1970-01-08 00:16:40''),
               (42, congratulations_text 7 ''1970-01-08 00:16:40'')]\<rparr>)"
    using admin args store
    by (simp add: handle_set_vip_def set_vip_try_def set_vip_notify_def and_then_def
        except_Exception_def send_message_def Let_def pkg low int42 scenario_env_def
        admin_message_def empty_state_def)
  from admin args run show ?thesis
    by simp
qed

text \<open>
  C7. When an admin grants a known package to a user whose entitlement is still active,
  the stored expiry afterwards is the larger of the old expiry and the current time
  plus the days of the package, so it is never earlier than before, and it is the old
  expiry when that one is the later of the two; the stored package is the new label.
  This holds whatever the transport does with the messages that follow.
\<close>

theorem regrant_active_never_decreases:
  assumes "is_admin (ADMIN_ID env) m" and "split (msg_text m) = args" and "2 < length args"
    and "map_of VIP_PACKAGES (lower (args ! 2)) = Some days"
    and "vip_users st (args ! 1) = Some v" and "is_active (time_now env) v"
  shows "\<exists>v'. vip_users (snd (handle_set_vip env m st)) (args ! 1) = Some v'
           \<and> expiry_time v \<le> expiry_time v'
           \<and> expiry_time v' = max (expiry_time v) (time_now env + real_of_int days * 86400)
           \<and> (time_now env + real_of_int days * 86400 \<le> expiry_time v
                \<longrightarrow> expiry_time v' = expiry_time v)
           \<and> package v' = lower (args ! 2)
           \<and> user_id v' = user_id v"
  using handle_set_vip_tables [OF assms(1-4), of st]
    set_vip_store_active [OF assms(5,6)]
  by simp

theorem regrant_active_never_decreases_witness:
  "is_admin (ADMIN_ID scenario_env) (admin_message ''/setvip 42 1day'')
   \<and> is_active (time_now scenario_env)
        \<lparr>user_id = ''42'', expiry_time = 1000 + 10 * 86400, package = ''30days''\<rparr>
   \<and> vip_users
        (snd (handle_set_vip scenario_env (admin_message ''/setvip 42 1day'')
               (vip42_state (1000 + 10 * 86400) ''30days''))) ''42''
       = Some \<lparr>user_id = ''42'', expiry_time = 1000 + 10 * 86400, package = ''1day''\<rparr>"
proof -
  have admin: "is_admin (ADMIN_ID scenario_env) (admin_message ''/setvip 42 1day'')"
    by (simp add: scenario_eval is_admin_def fmt_username_def)
  have args: "split (msg_text (admin_message ''/setvip 42 1day'')) = [''/setvip'', ''42'', ''1day'']"
    by (simp add: scenario_eval split_eval)
  have len: "2 < length [''/setvip'', ''42'', ''1day'']"
    by simp
  have pkg: "map_of VIP_PACKAGES (lower ([''/setvip'', ''42'', ''1day''] ! 2)) = Some 1"
    by (simp add: VIP_PACKAGES_def lower_def lower_char_def)
  have low: "lower ''1day'' = ''1day''"
    by (simp add: lower_def lower_char_def)
  have row: "vip_users (vip42_state (1000 + 10 * 86400) ''30days'') ([''/setvip'', ''42'', ''1day''] ! 1)
      = Some \<lparr>user_id = ''42'', expiry_time = 1000 + 10 * 86400, package = ''30days''\<rparr>"
    by (simp add: scenario_eval)
  have active: "is_active (time_now scenario_env)
      \<lparr>user_id = ''42'', expiry_time = 1000 + 10 * 86400, package = ''30days''\<rparr>"
    by (simp add: is_active_def scenario_eval)
  obtain v' where v': "vip_users
        (snd (handle_set_vip scenario_env (admin_message ''/setvip 42 1day'')
               (vip42_state (1000 + 10 * 86400) ''30days''))) ''42'' = Some v'"
      "expiry_time v' = 1000 + 10 * 86400" "package v' = ''1day''" "user_id v' = ''42''"
    using regrant_active_never_decreases [OF admin args len pkg row active]
    by (auto simp add: low scenario_env_def)
  have "v' = \<lparr>user_id = ''42'', expiry_time = 1000 + 10 * 86400, package = ''1day''\<rparr>"
    using v'(2-4) by (cases v') simp
  with v'(1) admin active show ?thesis
    by simp
qed

text \<open>A grant to a user without an entitlement, for an admin's command with a known
  package: the new row is stored under the user's id, with the expiry \<open>now + d\<close> days and
  the new label.\<close>

lemma grant_without_entitlement:
  assumes "is_admin (ADMIN_ID env) m" and "split (msg_text m) = args" and "2 < length args"
    and "map_of VIP_PACKAGES (lower (args ! 2)) = Some days"
    and "vip_users st (args ! 1) = None"
  shows "vip_users (snd (handle_set_vip env m st)) =
           (vip_users st)(args ! 1 \<mapsto>
              \<lparr>user_id = args ! 1, expiry_time = time_now env + real_of_int days * 86400,
               package = lower (args ! 2)\<rparr>)"
  using handle_set_vip_tables [OF assms(1-4), of st] set_vip_store_absent [OF assms(5)]
  by (simp add: mult.commute)

text \<open>A grant to a user whose entitlement has expired: the insert of a second row with
  the same key fails, the entitlement stays as it is, and the admin is told that the
  command failed.\<close>

lemma grant_on_expired_entitlement:
  assumes "is_admin (ADMIN_ID env) m" and "split (msg_text m) = args" and "2 < length args"
    and "map_of VIP_PACKAGES (lower (args ! 2)) = Some days"
    and "vip_users st (args ! 1) = Some v" and "\<not> is_active (time_now env) v"
  shows "handle_set_vip env m st =
           (if deliverable env (chat_id m) then Returned else Raised ApiException,
            st\<lparr>db_log := db_log st @ [Vip_get (args ! 1), Vip_add (args ! 1), Commit],
               outbox := outbox st @ [(chat_id m, setvip_error_text)]\<rparr>)"
  using assms set_vip_store_expired [OF assms(5,6)]
  by (simp add: handle_set_vip_def set_vip_try_def and_then_def except_Exception_def
      send_message_def Let_def)

text \<open>
  C1, at a failing input. User 42 holds an entitlement that expired at 500; at time 1000
  the admin sends \<^verbatim>\<open>/setvip 42 7days\<close>. The handler finds the row inactive, adds a second
  row with the same primary key, and the commit raises; the handler's \<^verbatim>\<open>except\<close>
  answers that setting the VIP status failed. The stored entitlement is still the
  expired one, not one that expires at \<open>1000 + 604800\<close>.
\<close>

theorem set_vip_expired_regrant_fails:
  "\<not> is_active (time_now scenario_env)
       \<lparr>user_id = ''42'', expiry_time = 500, package = ''1day''\<rparr>
   \<and> handle_set_vip scenario_env (admin_message ''/setvip 42 7days'') (vip42_state 500 ''1day'') =
       (Returned,
        (vip42_state 500 ''1day'')
          \<lparr>db_log := [Vip_get ''42'', Vip_add ''42'', Commit],
           outbox := [(1, setvip_error_text)]\<rparr>)
   \<and> vip_users
        (snd (handle_set_vip scenario_env (admin_message ''/setvip 42 7days'')
               (vip42_state 500 ''1day''))) ''42''
       = Some \<lparr>user_id = ''42'', expiry_time = 500, package = ''1day''\<rparr>"
proof -
  have admin: "is_admin (ADMIN_ID scenario_env) (admin_message ''/setvip 42 7days'')"
    by (simp add: scenario_eval is_admin_def fmt_username_def)
  have args: "split (msg_text (admin_message ''/setvip 42 7days'')) = [''/setvip'', ''42'', ''7days'']"
    by (simp add: scenario_eval split_eval)
  have len: "2 < length [''/setvip'', ''42'', ''7days'']"
    by simp
  have pkg: "map_of VIP_PACKAGES (lower ([''/setvip'', ''42'', ''7days''] ! 2)) = Some 7"
    by (simp add: VIP_PACKAGES_def lower_def lower_char_def)
  have row: "vip_users (vip42_state 500 ''1day'') ([''/setvip'', ''42'', ''7days''] ! 1)
      = Some \<lparr>user_id = ''42'', expiry_time = 500, package = ''1day''\<rparr>"
    by (simp add: scenario_eval)
  have expired: "\<not> is_active (time_now scenario_env)
      \<lparr>user_id = ''42'', expiry_time = 500, package = ''1day''\<rparr>"
    by (simp add: is_active_def scenario_eval)
  show ?thesis
    using expired grant_on_expired_entitlement [OF admin args len pkg row expired]
    by (simp add: scenario_eval)
qed

end
